theory Spec2Isabelle
  imports Complex_Main "HOL-Library.AList"
begin

section \<open>Values and objects of the program\<close>

text \<open>
  The program (\<^verbatim>\<open>main.py\<close>) keeps students, mentors, lecturers and reviewers as
  mutable objects, reports failures as returned strings and computes averages of
  integer grades. The embedding keeps that shape:
  \<^item> an instance is a record of its attributes, tagged with its class;
  \<^item> objects live in a store addressed by references, so that a method which
    mutates its argument returns the updated store and everything it did not touch
    is visibly the same;
  \<^item> a method returns \<^verbatim>\<open>None\<close>, a string or a boolean; calling a method that the
    receiver's class does not have raises \<^verbatim>\<open>AttributeError\<close>;
  \<^item> a \<^verbatim>\<open>dict\<close> is an association list in insertion order, a \<^verbatim>\<open>list\<close> a HOL list.

  Every list and dictionary is held inside the record of the object that owns it: the
  constructors create fresh ones, and no method of the program stores a list or a
  dictionary of one object in another. Course names are strings and grades integers, as
  the docstrings say.
\<close>

datatype py_exception = AttributeError

datatype py_value = PyNone | PyStr string | PyBool bool

datatype py_result = Return py_value | Raise py_exception

text \<open>
  Numbers returned by the averaging functions. Python's \<^verbatim>\<open>/\<close> on two integers yields
  the double nearest to the exact quotient (and fails when that is beyond the range of
  a double); the embedding keeps the exact quotient as a rational, so what is proved
  about averages is proved up to that rounding. The literal \<^verbatim>\<open>0\<close> is an \<^verbatim>\<open>int\<close>, the
  literal \<^verbatim>\<open>0.0\<close> a \<^verbatim>\<open>float\<close>.
\<close>

datatype py_number = PyInt int | PyFloat rat

fun num_val :: "py_number \<Rightarrow> rat" where
  "num_val (PyInt i) = of_int i"
| "num_val (PyFloat q) = q"

text \<open>Python compares an \<^verbatim>\<open>int\<close> and a \<^verbatim>\<open>float\<close> by their numeric values.\<close>

definition num_eq :: "py_number \<Rightarrow> py_number \<Rightarrow> bool" where
  "num_eq a b = (num_val a = num_val b)"

definition num_lt :: "py_number \<Rightarrow> py_number \<Rightarrow> bool" where
  "num_lt a b = (num_val a < num_val b)"

type_synonym grades_dict = "(string \<times> int list) list"

text \<open>
  \<^verbatim>\<open>Student.__init__\<close> stores the three identity fields under mangled private names
  and creates two empty lists and an empty dictionary.
\<close>

record student =
  student_name :: string
  student_surname :: string
  student_gender :: string
  finished_courses :: "string list"
  courses_in_progress :: "string list"
  grades :: grades_dict

record mentor =
  mentor_name :: string
  mentor_surname :: string
  courses_attached :: "string list"

text \<open>\<^verbatim>\<open>class Lecturer(Mentor)\<close> adds a dictionary of received grades.\<close>

record lecturer = mentor +
  grades :: grades_dict

text \<open>
  \<^verbatim>\<open>class Reviewer(Mentor)\<close> adds no attribute. \<open>OtherObj\<close> stands for every object
  that is an instance of none of the four classes (numbers, strings, \<^verbatim>\<open>None\<close>).
\<close>

datatype py_object =
    StudentObj student
  | MentorObj mentor
  | LecturerObj lecturer
  | ReviewerObj mentor
  | OtherObj

type_synonym ref = nat

type_synonym heap = "ref \<Rightarrow> py_object"

definition Student_init :: "string \<Rightarrow> string \<Rightarrow> string \<Rightarrow> student" where
  "Student_init name surname gender =
     \<lparr>student_name = name, student_surname = surname, student_gender = gender,
      finished_courses = [], courses_in_progress = [], student.grades = []\<rparr>"

definition Mentor_init :: "string \<Rightarrow> string \<Rightarrow> mentor" where
  "Mentor_init name surname =
     \<lparr>mentor_name = name, mentor_surname = surname, courses_attached = []\<rparr>"

definition Lecturer_init :: "string \<Rightarrow> string \<Rightarrow> lecturer" where
  "Lecturer_init name surname =
     \<lparr>mentor_name = name, mentor_surname = surname, courses_attached = [],
      lecturer.grades = []\<rparr>"

text \<open>Reading the attribute \<^verbatim>\<open>courses_attached\<close>, which the three mentor classes have.\<close>

fun get_courses_attached :: "py_object \<Rightarrow> string list option" where
  "get_courses_attached (MentorObj m) = Some (courses_attached m)"
| "get_courses_attached (LecturerObj l) = Some (courses_attached l)"
| "get_courses_attached (ReviewerObj m) = Some (courses_attached m)"
| "get_courses_attached _ = None"

section \<open>Adding courses\<close>

definition add_finished_course :: "heap \<Rightarrow> ref \<Rightarrow> string \<Rightarrow> py_result \<times> heap" where
  "add_finished_course h self course =
     (case h self of
        StudentObj s \<Rightarrow>
          if course \<notin> set (finished_courses s)
          then (Return PyNone,
                h(self := StudentObj (s\<lparr>finished_courses := finished_courses s @ [course]\<rparr>)))
          else (Return (PyStr ''add_finished_course ERROR''), h)
      | _ \<Rightarrow> (Raise AttributeError, h))"

definition add_courses_in_progress :: "heap \<Rightarrow> ref \<Rightarrow> string \<Rightarrow> py_result \<times> heap" where
  "add_courses_in_progress h self course =
     (case h self of
        StudentObj s \<Rightarrow>
          if course \<notin> set (courses_in_progress s)
          then (Return PyNone,
                h(self := StudentObj (s\<lparr>courses_in_progress := courses_in_progress s @ [course]\<rparr>)))
          else (Return (PyStr ''add_courses_in_progress ERROR''), h)
      | _ \<Rightarrow> (Raise AttributeError, h))"

text \<open>
  The body of \<^verbatim>\<open>Mentor.mentor_add_course\<close>, written once for every record that extends
  \<open>mentor\<close>, as the subclasses inherit it.
\<close>

definition mentor_add_course_body ::
  "'a mentor_scheme \<Rightarrow> string \<Rightarrow> py_value \<times> 'a mentor_scheme" where
  "mentor_add_course_body m course =
     (if course \<notin> set (courses_attached m)
      then (PyNone, m\<lparr>courses_attached := courses_attached m @ [course]\<rparr>)
      else (PyStr ''mentor_add_course ERROR'', m))"

definition mentor_add_course :: "heap \<Rightarrow> ref \<Rightarrow> string \<Rightarrow> py_result \<times> heap" where
  "mentor_add_course h self course =
     (case h self of
        MentorObj m \<Rightarrow>
          (case mentor_add_course_body m course of
             (r, m') \<Rightarrow> (Return r, h(self := MentorObj m')))
      | LecturerObj l \<Rightarrow>
          (case mentor_add_course_body l course of
             (r, l') \<Rightarrow> (Return r, h(self := LecturerObj l')))
      | ReviewerObj m \<Rightarrow>
          (case mentor_add_course_body m course of
             (r, m') \<Rightarrow> (Return r, h(self := ReviewerObj m')))
      | _ \<Rightarrow> (Raise AttributeError, h))"

section \<open>Rating\<close>

text \<open>
  \<^verbatim>\<open>isinstance(lecturer, Lecturer)\<close> holds for \<open>LecturerObj\<close> only, and the conjunction
  is evaluated left to right, so the attributes of another kind of object are never
  read. \<^verbatim>\<open>d[course] += [grade]\<close> replaces the entry in place; \<^verbatim>\<open>d[course] = [grade]\<close> on
  a new key appends the entry.
\<close>

definition rate_lecture :: "heap \<Rightarrow> ref \<Rightarrow> ref \<Rightarrow> string \<Rightarrow> int \<Rightarrow> py_result \<times> heap" where
  "rate_lecture h self lecturer course grade =
     (case h self of
        StudentObj s \<Rightarrow>
          (case h lecturer of
             LecturerObj l \<Rightarrow>
               if course \<in> set (courses_attached l) \<and>
                  course \<in> set (courses_in_progress s) \<and>
                  0 \<le> grade \<and> grade \<le> 10
               then (case map_of (lecturer.grades l) course of
                       Some gs \<Rightarrow>
                         (Return PyNone,
                          h(lecturer := LecturerObj
                              (l\<lparr>lecturer.grades :=
                                   AList.update course (gs @ [grade]) (lecturer.grades l)\<rparr>)))
                     | None \<Rightarrow>
                         (Return PyNone,
                          h(lecturer := LecturerObj
                              (l\<lparr>lecturer.grades :=
                                   AList.update course [grade] (lecturer.grades l)\<rparr>))))
               else (Return (PyStr ''ERROR!''), h)
           | _ \<Rightarrow> (Return (PyStr ''ERROR!''), h))
      | _ \<Rightarrow> (Raise AttributeError, h))"

definition rate_hw :: "heap \<Rightarrow> ref \<Rightarrow> ref \<Rightarrow> string \<Rightarrow> int \<Rightarrow> py_result \<times> heap" where
  "rate_hw h self student course grade =
     (case h self of
        ReviewerObj rv \<Rightarrow>
          (case h student of
             StudentObj s \<Rightarrow>
               if course \<in> set (courses_attached rv) \<and>
                  course \<in> set (courses_in_progress s)
               then (case map_of (student.grades s) course of
                       Some gs \<Rightarrow>
                         (Return PyNone,
                          h(student := StudentObj
                              (s\<lparr>student.grades :=
                                   AList.update course (gs @ [grade]) (student.grades s)\<rparr>)))
                     | None \<Rightarrow>
                         (Return PyNone,
                          h(student := StudentObj
                              (s\<lparr>student.grades :=
                                   AList.update course [grade] (student.grades s)\<rparr>))))
               else (Return (PyStr ''rate_hw function ERROR''), h)
           | _ \<Rightarrow> (Return (PyStr ''rate_hw function ERROR''), h))
      | _ \<Rightarrow> (Raise AttributeError, h))"

section \<open>Averages\<close>

text \<open>
  The three averaging functions collect grades with a loop that extends a list, then
  divide the sum by the length, or return zero for an empty list.
\<close>

definition own_average_grade :: "grades_dict \<Rightarrow> py_number" where
  "own_average_grade grades_dict =
     (let all_grades = fold (\<lambda>grades_list acc. acc @ grades_list) (map snd grades_dict) []
      in if all_grades \<noteq> []
         then PyFloat (of_int (sum_list all_grades) / of_nat (length all_grades))
         else PyInt 0)"



section \<open>Comparisons\<close>

text \<open>
  \<^verbatim>\<open>Student\<close> and \<^verbatim>\<open>Lecturer\<close> define \<^verbatim>\<open>__eq__\<close> and \<^verbatim>\<open>__lt__\<close>. The other
  four comparison methods are not written in the class bodies: \<^verbatim>\<open>__ne__\<close> is the one
  every Python class inherits (the negated truth value of \<^verbatim>\<open>__eq__\<close>), and the decorator
  \<^verbatim>\<open>functools.total_ordering\<close> derives \<^verbatim>\<open>__gt__\<close>, \<^verbatim>\<open>__le__\<close> and \<^verbatim>\<open>__ge__\<close> from
  \<^verbatim>\<open>__lt__\<close>:
  \<^verbatim>\<open>__gt__\<close> returns \<^verbatim>\<open>not op_result and self != other\<close>,
  \<^verbatim>\<open>__le__\<close> returns \<^verbatim>\<open>op_result or self == other\<close>,
  \<^verbatim>\<open>__ge__\<close> returns \<^verbatim>\<open>not op_result\<close>,
  where \<^verbatim>\<open>op_result\<close> is what \<^verbatim>\<open>__lt__\<close> returned. A non-empty string counts as true.
\<close>

fun truthy :: "py_value \<Rightarrow> bool" where
  "truthy PyNone = False"
| "truthy (PyStr s) = (s \<noteq> [])"
| "truthy (PyBool b) = b"

definition Student_eq :: "student \<Rightarrow> py_object \<Rightarrow> py_value" where
  "Student_eq self other =
     (case other of
        StudentObj other_s \<Rightarrow>
          PyBool (num_eq (own_average_grade (student.grades self))
                         (own_average_grade (student.grades other_s)))
      | _ \<Rightarrow> PyStr ''COMPARE ERROR'')"

definition Student_lt :: "student \<Rightarrow> py_object \<Rightarrow> py_value" where
  "Student_lt self other =
     (case other of
        StudentObj other_s \<Rightarrow>
          PyBool (num_lt (own_average_grade (student.grades self))
                         (own_average_grade (student.grades other_s)))
      | _ \<Rightarrow> PyStr ''COMPARE ERROR'')"

definition Student_ne :: "student \<Rightarrow> py_object \<Rightarrow> py_value" where
  "Student_ne self other = PyBool (\<not> truthy (Student_eq self other))"

definition Student_gt :: "student \<Rightarrow> py_object \<Rightarrow> py_value" where
  "Student_gt self other =
     (let op_result = Student_lt self other
      in if \<not> truthy op_result then Student_ne self other else PyBool False)"

definition Student_le :: "student \<Rightarrow> py_object \<Rightarrow> py_value" where
  "Student_le self other =
     (let op_result = Student_lt self other
      in if truthy op_result then op_result else Student_eq self other)"

definition Student_ge :: "student \<Rightarrow> py_object \<Rightarrow> py_value" where
  "Student_ge self other =
     (let op_result = Student_lt self other in PyBool (\<not> truthy op_result))"

definition Lecturer_eq :: "lecturer \<Rightarrow> py_object \<Rightarrow> py_value" where
  "Lecturer_eq self other =
     (case other of
        LecturerObj other_l \<Rightarrow>
          PyBool (num_eq (own_average_grade (lecturer.grades self))
                         (own_average_grade (lecturer.grades other_l)))
      | _ \<Rightarrow> PyStr ''COMPARE ERROR'')"

definition Lecturer_lt :: "lecturer \<Rightarrow> py_object \<Rightarrow> py_value" where
  "Lecturer_lt self other =
     (case other of
        LecturerObj other_l \<Rightarrow>
          PyBool (num_lt (own_average_grade (lecturer.grades self))
                         (own_average_grade (lecturer.grades other_l)))
      | _ \<Rightarrow> PyStr ''COMPARE ERROR'')"

definition Lecturer_ne :: "lecturer \<Rightarrow> py_object \<Rightarrow> py_value" where
  "Lecturer_ne self other = PyBool (\<not> truthy (Lecturer_eq self other))"

definition Lecturer_gt :: "lecturer \<Rightarrow> py_object \<Rightarrow> py_value" where
  "Lecturer_gt self other =
     (let op_result = Lecturer_lt self other
      in if \<not> truthy op_result then Lecturer_ne self other else PyBool False)"

definition Lecturer_le :: "lecturer \<Rightarrow> py_object \<Rightarrow> py_value" where
  "Lecturer_le self other =
     (let op_result = Lecturer_lt self other
      in if truthy op_result then op_result else Lecturer_eq self other)"

definition Lecturer_ge :: "lecturer \<Rightarrow> py_object \<Rightarrow> py_value" where
  "Lecturer_ge self other =
     (let op_result = Lecturer_lt self other in PyBool (\<not> truthy op_result))"

section \<open>The store of the demonstration driver\<close>

text \<open>
  The objects the driver at the end of the file has built when it starts rating: two
  students (references 0 and 1), two lecturers (2 and 3) and two reviewers (4 and 5),
  with their courses added. Names are transliterated.
\<close>

definition student1 :: student where
  "student1 =
     \<lparr>student_name = ''Ivan'', student_surname = ''Ivanov'', student_gender = ''M'',
      finished_courses = [''GIT''], courses_in_progress = [''Python'', ''JavaScript''],
      student.grades = []\<rparr>"

definition student2 :: student where
  "student2 =
     \<lparr>student_name = ''Pyotr'', student_surname = ''Petrov'', student_gender = ''M'',
      finished_courses = [''JavaScript''], courses_in_progress = [''Python'', ''GIT''],
      student.grades = []\<rparr>"

definition lecturer1 :: lecturer where
  "lecturer1 =
     \<lparr>mentor_name = ''Oleg'', mentor_surname = ''Bulygin'',
      courses_attached = [''Python'', ''C++''], lecturer.grades = []\<rparr>"

definition lecturer2 :: lecturer where
  "lecturer2 =
     \<lparr>mentor_name = ''Timur'', mentor_surname = ''Anvartdinov'',
      courses_attached = [''Python'', ''JavaScript''], lecturer.grades = []\<rparr>"

definition reviewer1 :: mentor where
  "reviewer1 =
     \<lparr>mentor_name = ''Vladimir'', mentor_surname = ''Smirnov'',
      courses_attached = [''Python'', ''JavaScript'']\<rparr>"

definition reviewer2 :: mentor where
  "reviewer2 =
     \<lparr>mentor_name = ''Elena'', mentor_surname = ''Sidorova'',
      courses_attached = [''Python'', ''GIT'']\<rparr>"

definition demo_heap :: heap where
  "demo_heap =
     (\<lambda>_. OtherObj)
       (0 := StudentObj student1, 1 := StudentObj student2,
        2 := LecturerObj lecturer1, 3 := LecturerObj lecturer2,
        4 := ReviewerObj reviewer1, 5 := ReviewerObj reviewer2)"

lemmas demo_defs =
  demo_heap_def student1_def student2_def lecturer1_def lecturer2_def
  reviewer1_def reviewer2_def

section \<open>Notions of the specification\<close>



definition grades_for :: "grades_dict \<Rightarrow> string \<Rightarrow> int list" where
  "grades_for d c = (case map_of d c of Some gs \<Rightarrow> gs | None \<Rightarrow> [])"

fun get_grades :: "py_object \<Rightarrow> grades_dict option" where
  "get_grades (StudentObj s) = Some (student.grades s)"
| "get_grades (LecturerObj l) = Some (lecturer.grades l)"
| "get_grades _ = None"

definition grade_list :: "py_object \<Rightarrow> string \<Rightarrow> int list" where
  "grade_list ob c = (case get_grades ob of Some d \<Rightarrow> grades_for d c | None \<Rightarrow> [])"

fun is_Student :: "py_object \<Rightarrow> bool" where
  "is_Student (StudentObj s) = True"
| "is_Student _ = False"

fun is_Lecturer :: "py_object \<Rightarrow> bool" where
  "is_Lecturer (LecturerObj l) = True"
| "is_Lecturer _ = False"

definition attached_of :: "py_object \<Rightarrow> string list" where
  "attached_of ob = (case get_courses_attached ob of Some xs \<Rightarrow> xs | None \<Rightarrow> [])"

fun in_progress_of :: "py_object \<Rightarrow> string list" where
  "in_progress_of (StudentObj s) = courses_in_progress s"
| "in_progress_of _ = []"

fun finished_of :: "py_object \<Rightarrow> string list" where
  "finished_of (StudentObj s) = finished_courses s"
| "finished_of _ = []"

text \<open>
  The four conditions of a lecture rating: the rated object is a lecturer, the course is
  attached to it, the rating student is enrolled in the course, and the grade lies
  between 0 and 10.
\<close>

definition rate_lecture_conditions :: "py_object \<Rightarrow> py_object \<Rightarrow> string \<Rightarrow> int \<Rightarrow> bool" where
  "rate_lecture_conditions S L C g =
     (is_Lecturer L \<and> C \<in> set (attached_of L) \<and> C \<in> set (in_progress_of S) \<and>
      0 \<le> g \<and> g \<le> 10)"

text \<open>
  The three conditions of a homework rating: the rated object is a student, the course
  is attached to the reviewer, and the student is enrolled in the course.
\<close>

definition rate_hw_conditions :: "py_object \<Rightarrow> py_object \<Rightarrow> string \<Rightarrow> bool" where
  "rate_hw_conditions R S C =
     (is_Student S \<and> C \<in> set (attached_of R) \<and> C \<in> set (in_progress_of S))"

text \<open>The data invariant: no course list of an object holds a course twice.\<close>

fun obj_inv :: "py_object \<Rightarrow> bool" where
  "obj_inv (StudentObj s) =
     (distinct (finished_courses s) \<and> distinct (courses_in_progress s))"
| "obj_inv (MentorObj m) = distinct (courses_attached m)"
| "obj_inv (LecturerObj l) = distinct (courses_attached l)"
| "obj_inv (ReviewerObj m) = distinct (courses_attached m)"
| "obj_inv OtherObj = True"

text \<open>
  A grade dictionary grows into another one when every entry of the first is still
  there and its list has only been extended at the end.
\<close>

definition grades_grow :: "grades_dict \<Rightarrow> grades_dict \<Rightarrow> bool" where
  "grades_grow d d' = (\<forall>c gs. map_of d c = Some gs \<longrightarrow> (\<exists>more. map_of d' c = Some (gs @ more)))"

definition obj_grows :: "py_object \<Rightarrow> py_object \<Rightarrow> bool" where
  "obj_grows ob ob' =
     (case get_grades ob of
        None \<Rightarrow> True
      | Some d \<Rightarrow> (case get_grades ob' of Some d' \<Rightarrow> grades_grow d d' | None \<Rightarrow> False))"

text \<open>The public operations that change objects, and runs of them.\<close>

datatype operation =
    Add_finished_course ref string
  | Add_courses_in_progress ref string
  | Mentor_add_course ref string
  | Rate_lecture ref ref string int
  | Rate_hw ref ref string int

fun run_operation :: "heap \<Rightarrow> operation \<Rightarrow> py_result \<times> heap" where
  "run_operation h (Add_finished_course self c) = add_finished_course h self c"
| "run_operation h (Add_courses_in_progress self c) = add_courses_in_progress h self c"
| "run_operation h (Mentor_add_course self c) = mentor_add_course h self c"
| "run_operation h (Rate_lecture self l c g) = rate_lecture h self l c g"
| "run_operation h (Rate_hw self st c g) = rate_hw h self st c g"

fun run_operations :: "heap \<Rightarrow> operation list \<Rightarrow> heap" where
  "run_operations h [] = h"
| "run_operations h (x # xs) = run_operations (snd (run_operation h x)) xs"




text \<open>The ratings of the demonstration driver, in its order.\<close>

definition driver_ratings :: "operation list" where
  "driver_ratings =
     [Rate_hw 4 0 ''Python'' 9, Rate_hw 4 0 ''JavaScript'' 10,
      Rate_hw 5 1 ''Python'' 8, Rate_hw 5 1 ''GIT'' 9,
      Rate_lecture 0 2 ''Python'' 8, Rate_lecture 0 2 ''C++'' 7,
      Rate_lecture 1 3 ''Python'' 10, Rate_lecture 1 3 ''JavaScript'' 9]"



section \<open>Adding a course twice\<close>

lemma add_finished_course_present:
  "h self = StudentObj s \<Longrightarrow> c \<in> set (finished_courses s) \<Longrightarrow>
   add_finished_course h self c = (Return (PyStr ''add_finished_course ERROR''), h)"
  by (simp add: add_finished_course_def)

lemma add_finished_course_absent:
  "h self = StudentObj s \<Longrightarrow> c \<notin> set (finished_courses s) \<Longrightarrow>
   add_finished_course h self c =
     (Return PyNone, h(self := StudentObj (s\<lparr>finished_courses := finished_courses s @ [c]\<rparr>)))"
  by (simp add: add_finished_course_def)

lemma add_courses_in_progress_present:
  "h self = StudentObj s \<Longrightarrow> c \<in> set (courses_in_progress s) \<Longrightarrow>
   add_courses_in_progress h self c = (Return (PyStr ''add_courses_in_progress ERROR''), h)"
  by (simp add: add_courses_in_progress_def)

lemma add_courses_in_progress_absent:
  "h self = StudentObj s \<Longrightarrow> c \<notin> set (courses_in_progress s) \<Longrightarrow>
   add_courses_in_progress h self c =
     (Return PyNone,
      h(self := StudentObj (s\<lparr>courses_in_progress := courses_in_progress s @ [c]\<rparr>)))"
  by (simp add: add_courses_in_progress_def)

lemma mentor_add_course_present:
  "get_courses_attached (h self) = Some xs \<Longrightarrow> c \<in> set xs \<Longrightarrow>
   mentor_add_course h self c = (Return (PyStr ''mentor_add_course ERROR''), h)"
  by (cases "h self")
     (auto simp: mentor_add_course_def mentor_add_course_body_def fun_upd_idem)

lemma mentor_add_course_absent:
  assumes "get_courses_attached (h self) = Some xs" and "c \<notin> set xs"
  shows "fst (mentor_add_course h self c) = Return PyNone"
    and "get_courses_attached (snd (mentor_add_course h self c) self) = Some (xs @ [c])"
    and "r \<noteq> self \<Longrightarrow> snd (mentor_add_course h self c) r = h r"
  using assms
  by (cases "h self"; simp add: mentor_add_course_def mentor_add_course_body_def)+

text \<open>
  Claim C4. On each of the three course lists (a student's finished courses, a student's
  courses in progress, a mentor's attached courses), adding a course that is already in
  the list returns the duplicate message and changes nothing; adding a course that is
  not in the list appends it and returns \<^verbatim>\<open>None\<close>; hence a second call with the same
  course reports the duplicate and leaves the store as the first call left it.
\<close>

theorem add_course_unique:
  "(h self = StudentObj s \<longrightarrow>
      (c \<in> set (finished_courses s) \<longrightarrow>
         add_finished_course h self c = (Return (PyStr ''add_finished_course ERROR''), h)) \<and>
      (c \<notin> set (finished_courses s) \<longrightarrow>
         add_finished_course h self c =
           (Return PyNone,
            h(self := StudentObj (s\<lparr>finished_courses := finished_courses s @ [c]\<rparr>)))) \<and>
      (c \<in> set (courses_in_progress s) \<longrightarrow>
         add_courses_in_progress h self c =
           (Return (PyStr ''add_courses_in_progress ERROR''), h)) \<and>
      (c \<notin> set (courses_in_progress s) \<longrightarrow>
         add_courses_in_progress h self c =
           (Return PyNone,
            h(self := StudentObj (s\<lparr>courses_in_progress := courses_in_progress s @ [c]\<rparr>)))) \<and>
      add_finished_course (snd (add_finished_course h self c)) self c =
        (Return (PyStr ''add_finished_course ERROR''), snd (add_finished_course h self c)) \<and>
      add_courses_in_progress (snd (add_courses_in_progress h self c)) self c =
        (Return (PyStr ''add_courses_in_progress ERROR''),
         snd (add_courses_in_progress h self c))) \<and>
   (get_courses_attached (h self) = Some xs \<longrightarrow>
      (c \<in> set xs \<longrightarrow>
         mentor_add_course h self c = (Return (PyStr ''mentor_add_course ERROR''), h)) \<and>
      (c \<notin> set xs \<longrightarrow>
         fst (mentor_add_course h self c) = Return PyNone \<and>
         get_courses_attached (snd (mentor_add_course h self c) self) = Some (xs @ [c]) \<and>
         (\<forall>r. r \<noteq> self \<longrightarrow> snd (mentor_add_course h self c) r = h r)) \<and>
      mentor_add_course (snd (mentor_add_course h self c)) self c =
        (Return (PyStr ''mentor_add_course ERROR''), snd (mentor_add_course h self c)))"
proof (intro conjI impI)
  assume s: "h self = StudentObj s"
  show "add_finished_course (snd (add_finished_course h self c)) self c =
        (Return (PyStr ''add_finished_course ERROR''), snd (add_finished_course h self c))"
  proof (cases "c \<in> set (finished_courses s)")
    case True
    then show ?thesis using s by (simp add: add_finished_course_present)
  next
    case False
    then show ?thesis using s
      by (simp add: add_finished_course_absent add_finished_course_def)
  qed
  show "add_courses_in_progress (snd (add_courses_in_progress h self c)) self c =
        (Return (PyStr ''add_courses_in_progress ERROR''),
         snd (add_courses_in_progress h self c))"
  proof (cases "c \<in> set (courses_in_progress s)")
    case True
    then show ?thesis using s by (simp add: add_courses_in_progress_present)
  next
    case False
    then show ?thesis using s
      by (simp add: add_courses_in_progress_absent add_courses_in_progress_def)
  qed
next
  assume m: "get_courses_attached (h self) = Some xs"
  show "mentor_add_course (snd (mentor_add_course h self c)) self c =
        (Return (PyStr ''mentor_add_course ERROR''), snd (mentor_add_course h self c))"
  proof (cases "c \<in> set xs")
    case True
    then show ?thesis using m by (simp add: mentor_add_course_present)
  next
    case False
    have "get_courses_attached (snd (mentor_add_course h self c) self) = Some (xs @ [c])"
      using m False by (rule mentor_add_course_absent(2))
    then show ?thesis by (rule mentor_add_course_present) simp
  qed
qed (simp_all add: add_finished_course_present add_finished_course_absent
       add_courses_in_progress_present add_courses_in_progress_absent
       mentor_add_course_present mentor_add_course_absent)

theorem add_course_unique_witness:
  "add_finished_course demo_heap 0 ''GIT'' =
     (Return (PyStr ''add_finished_course ERROR''), demo_heap) \<and>
   fst (add_finished_course demo_heap 0 ''C++'') = Return PyNone \<and>
   add_courses_in_progress demo_heap 0 ''Python'' =
     (Return (PyStr ''add_courses_in_progress ERROR''), demo_heap) \<and>
   fst (add_courses_in_progress demo_heap 0 ''C++'') = Return PyNone \<and>
   mentor_add_course demo_heap 2 ''C++'' =
     (Return (PyStr ''mentor_add_course ERROR''), demo_heap) \<and>
   get_courses_attached (snd (mentor_add_course demo_heap 4 ''GIT'') 4) =
     Some [''Python'', ''JavaScript'', ''GIT'']"
  using add_course_unique [of demo_heap 0 student1 "''GIT''" "[''Python'', ''C++'']"]
        add_course_unique [of demo_heap 0 student1 "''C++''" "[''Python'', ''C++'']"]
        add_course_unique [of demo_heap 0 student1 "''Python''" "[''Python'', ''C++'']"]
        add_course_unique [of demo_heap 2 student1 "''C++''" "[''Python'', ''C++'']"]
        add_course_unique [of demo_heap 4 student1 "''GIT''" "[''Python'', ''JavaScript'']"]
  by (simp add: demo_defs)

text \<open>
  Claim C9. Neither add operation of a student looks at the other list: a course that is
  in progress and not finished is appended to the finished courses without an error, and
  is then in both lists; the same holds with the two lists exchanged.
\<close>

theorem add_course_no_cross_check:
  assumes "h self = StudentObj s"
  shows "(c \<in> set (courses_in_progress s) \<and> c \<notin> set (finished_courses s) \<longrightarrow>
            add_finished_course h self c =
              (Return PyNone,
               h(self := StudentObj (s\<lparr>finished_courses := finished_courses s @ [c]\<rparr>))) \<and>
            c \<in> set (finished_of (snd (add_finished_course h self c) self)) \<and>
            c \<in> set (in_progress_of (snd (add_finished_course h self c) self))) \<and>
         (c \<in> set (finished_courses s) \<and> c \<notin> set (courses_in_progress s) \<longrightarrow>
            add_courses_in_progress h self c =
              (Return PyNone,
               h(self := StudentObj (s\<lparr>courses_in_progress := courses_in_progress s @ [c]\<rparr>))) \<and>
            c \<in> set (finished_of (snd (add_courses_in_progress h self c) self)) \<and>
            c \<in> set (in_progress_of (snd (add_courses_in_progress h self c) self)))"
  using assms by (simp add: add_finished_course_def add_courses_in_progress_def)

theorem add_course_no_cross_check_witness:
  "demo_heap 0 = StudentObj student1 \<and>
   fst (add_finished_course demo_heap 0 ''Python'') = Return PyNone \<and>
   finished_of (snd (add_finished_course demo_heap 0 ''Python'') 0) =
     [''GIT'', ''Python''] \<and>
   in_progress_of (snd (add_finished_course demo_heap 0 ''Python'') 0) =
     [''Python'', ''JavaScript''] \<and>
   fst (add_courses_in_progress demo_heap 0 ''GIT'') = Return PyNone \<and>
   finished_of (snd (add_courses_in_progress demo_heap 0 ''GIT'') 0) = [''GIT''] \<and>
   in_progress_of (snd (add_courses_in_progress demo_heap 0 ''GIT'') 0) =
     [''Python'', ''JavaScript'', ''GIT'']"
proof -
  have s: "demo_heap 0 = StudentObj student1"
    by (simp add: demo_heap_def)
  show ?thesis
    using s add_course_no_cross_check [of demo_heap 0 student1 "''Python''", OF s]
            add_course_no_cross_check [of demo_heap 0 student1 "''GIT''", OF s]
    by (auto simp: student1_def)
qed

section \<open>Rating is all or nothing\<close>

lemma grades_for_update_same:
  "grades_for (AList.update c v d) c = v"
  by (simp add: grades_for_def update_conv')

lemma grades_for_update_other:
  "c' \<noteq> c \<Longrightarrow> grades_for (AList.update c v d) c' = grades_for d c'"
  by (simp add: grades_for_def update_conv')

lemma filter_update_other:
  "filter (\<lambda>p. fst p \<noteq> c) (AList.update c v d) = filter (\<lambda>p. fst p \<noteq> c) d"
  by (induction d) auto

lemma rate_lecture_accept:
  assumes "h self = StudentObj s" and "h lecturer = LecturerObj l"
    and "C \<in> set (courses_attached l)" and "C \<in> set (courses_in_progress s)"
    and "0 \<le> g" and "g \<le> 10"
  shows "rate_lecture h self lecturer C g =
           (Return PyNone,
            h(lecturer := LecturerObj
                (l\<lparr>lecturer.grades :=
                     AList.update C (grades_for (lecturer.grades l) C @ [g])
                       (lecturer.grades l)\<rparr>)))"
  using assms by (simp add: rate_lecture_def grades_for_def split: option.splits)

lemma rate_lecture_reject:
  assumes "h self = StudentObj s"
    and "\<not> rate_lecture_conditions (h self) (h lecturer) C g"
  shows "rate_lecture h self lecturer C g = (Return (PyStr ''ERROR!''), h)"
  using assms
  by (cases "h lecturer")
     (auto simp: rate_lecture_def rate_lecture_conditions_def attached_of_def)

lemma rate_hw_accept:
  assumes "h self = ReviewerObj rv" and "h student = StudentObj s"
    and "C \<in> set (courses_attached rv)" and "C \<in> set (courses_in_progress s)"
  shows "rate_hw h self student C g =
           (Return PyNone,
            h(student := StudentObj
                (s\<lparr>student.grades :=
                     AList.update C (grades_for (student.grades s) C @ [g])
                       (student.grades s)\<rparr>)))"
  using assms by (simp add: rate_hw_def grades_for_def split: option.splits)

lemma rate_hw_reject:
  assumes "h self = ReviewerObj rv"
    and "\<not> rate_hw_conditions (h self) (h student) C"
  shows "rate_hw h self student C g = (Return (PyStr ''rate_hw function ERROR''), h)"
  using assms
  by (cases "h student")
     (auto simp: rate_hw_def rate_hw_conditions_def attached_of_def)

text \<open>
  Claim C1. Called by a student, \<^verbatim>\<open>rate_lecture\<close> appends the grade to the rated
  object's grade list for the course exactly when the four conditions hold (the object
  is a lecturer, the course is attached to it, the student is enrolled in the course,
  the grade is between 0 and 10), and then returns \<^verbatim>\<open>None\<close>; when a condition fails it
  returns the error string and the whole store, hence the student and the rated object,
  is as before.
\<close>

theorem rate_lecture_all_or_nothing:
  assumes "h self = StudentObj s"
  shows "(rate_lecture_conditions (h self) (h lecturer) C g \<longrightarrow>
            fst (rate_lecture h self lecturer C g) = Return PyNone \<and>
            grade_list (snd (rate_lecture h self lecturer C g) lecturer) C =
              grade_list (h lecturer) C @ [g]) \<and>
         (\<not> rate_lecture_conditions (h self) (h lecturer) C g \<longrightarrow>
            rate_lecture h self lecturer C g = (Return (PyStr ''ERROR!''), h)) \<and>
         ((grade_list (snd (rate_lecture h self lecturer C g) lecturer) C =
             grade_list (h lecturer) C @ [g]) =
          rate_lecture_conditions (h self) (h lecturer) C g)"
proof -
  have accept: "fst (rate_lecture h self lecturer C g) = Return PyNone \<and>
      grade_list (snd (rate_lecture h self lecturer C g) lecturer) C =
        grade_list (h lecturer) C @ [g]"
    if c: "rate_lecture_conditions (h self) (h lecturer) C g"
  proof -
    from c obtain l where l: "h lecturer = LecturerObj l"
      by (cases "h lecturer") (simp_all add: rate_lecture_conditions_def)
    from c l assms have "C \<in> set (courses_attached l)" "C \<in> set (courses_in_progress s)"
      "0 \<le> g" "g \<le> 10"
      by (simp_all add: rate_lecture_conditions_def attached_of_def)
    from rate_lecture_accept [OF assms l this]
    show ?thesis by (simp add: l grade_list_def grades_for_update_same)
  qed
  have reject: "rate_lecture h self lecturer C g = (Return (PyStr ''ERROR!''), h)"
    if "\<not> rate_lecture_conditions (h self) (h lecturer) C g"
    using assms that by (rule rate_lecture_reject)
  from accept reject show ?thesis
    by (cases "rate_lecture_conditions (h self) (h lecturer) C g") simp_all
qed

theorem rate_lecture_all_or_nothing_witness:
  "demo_heap 0 = StudentObj student1 \<and>
   rate_lecture_conditions (demo_heap 0) (demo_heap 2) ''Python'' 8 \<and>
   fst (rate_lecture demo_heap 0 2 ''Python'' 8) = Return PyNone \<and>
   grade_list (snd (rate_lecture demo_heap 0 2 ''Python'' 8) 2) ''Python'' = [8] \<and>
   \<not> rate_lecture_conditions (demo_heap 0) (demo_heap 2) ''Python'' 12 \<and>
   rate_lecture demo_heap 0 2 ''Python'' 12 = (Return (PyStr ''ERROR!''), demo_heap) \<and>
   \<not> rate_lecture_conditions (demo_heap 0) (demo_heap 2) ''C++'' 7 \<and>
   rate_lecture demo_heap 0 2 ''C++'' 7 = (Return (PyStr ''ERROR!''), demo_heap) \<and>
   \<not> rate_lecture_conditions (demo_heap 0) (demo_heap 4) ''Python'' 8 \<and>
   rate_lecture demo_heap 0 4 ''Python'' 8 = (Return (PyStr ''ERROR!''), demo_heap)"
proof -
  have s: "demo_heap 0 = StudentObj student1"
    by (simp add: demo_heap_def)
  have ok: "rate_lecture_conditions (demo_heap 0) (demo_heap 2) ''Python'' 8"
    by (simp add: demo_defs rate_lecture_conditions_def attached_of_def)
  have range: "\<not> rate_lecture_conditions (demo_heap 0) (demo_heap 2) ''Python'' 12"
    by (simp add: demo_defs rate_lecture_conditions_def attached_of_def)
  have enrolled: "\<not> rate_lecture_conditions (demo_heap 0) (demo_heap 2) ''C++'' 7"
    by (simp add: demo_defs rate_lecture_conditions_def attached_of_def)
  have kind: "\<not> rate_lecture_conditions (demo_heap 0) (demo_heap 4) ''Python'' 8"
    by (simp add: demo_defs rate_lecture_conditions_def attached_of_def)
  have empty: "grade_list (demo_heap 2) ''Python'' = []"
    by (simp add: demo_defs grade_list_def grades_for_def)
  show ?thesis
    using s ok range enrolled kind empty
      rate_lecture_all_or_nothing [of demo_heap 0 student1 2 "''Python''" 8, OF s]
      rate_lecture_all_or_nothing [of demo_heap 0 student1 2 "''Python''" 12, OF s]
      rate_lecture_all_or_nothing [of demo_heap 0 student1 2 "''C++''" 7, OF s]
      rate_lecture_all_or_nothing [of demo_heap 0 student1 4 "''Python''" 8, OF s]
    by simp
qed

text \<open>
  Claim C2. Called by a reviewer, \<^verbatim>\<open>rate_hw\<close> appends the grade as it is, whatever its
  value, to the rated object's grade list for the course exactly when the three
  conditions hold (the object is a student, the course is attached to the reviewer, the
  student is enrolled in the course), and then returns \<^verbatim>\<open>None\<close>; when a condition fails
  it returns the error string and the store is as before.
\<close>

theorem rate_hw_all_or_nothing:
  assumes "h self = ReviewerObj rv"
  shows "(rate_hw_conditions (h self) (h student) C \<longrightarrow>
            fst (rate_hw h self student C g) = Return PyNone \<and>
            grade_list (snd (rate_hw h self student C g) student) C =
              grade_list (h student) C @ [g]) \<and>
         (\<not> rate_hw_conditions (h self) (h student) C \<longrightarrow>
            rate_hw h self student C g = (Return (PyStr ''rate_hw function ERROR''), h)) \<and>
         ((grade_list (snd (rate_hw h self student C g) student) C =
             grade_list (h student) C @ [g]) =
          rate_hw_conditions (h self) (h student) C)"
proof -
  have accept: "fst (rate_hw h self student C g) = Return PyNone \<and>
      grade_list (snd (rate_hw h self student C g) student) C =
        grade_list (h student) C @ [g]"
    if c: "rate_hw_conditions (h self) (h student) C"
  proof -
    from c obtain s where s: "h student = StudentObj s"
      by (cases "h student") (simp_all add: rate_hw_conditions_def)
    from c s assms have "C \<in> set (courses_attached rv)" "C \<in> set (courses_in_progress s)"
      by (simp_all add: rate_hw_conditions_def attached_of_def)
    from rate_hw_accept [OF assms s this]
    show ?thesis by (simp add: s grade_list_def grades_for_update_same)
  qed
  have reject: "rate_hw h self student C g = (Return (PyStr ''rate_hw function ERROR''), h)"
    if "\<not> rate_hw_conditions (h self) (h student) C"
    using assms that by (rule rate_hw_reject)
  from accept reject show ?thesis
    by (cases "rate_hw_conditions (h self) (h student) C") simp_all
qed

theorem rate_hw_all_or_nothing_witness:
  "demo_heap 4 = ReviewerObj reviewer1 \<and>
   rate_hw_conditions (demo_heap 4) (demo_heap 0) ''Python'' \<and>
   fst (rate_hw demo_heap 4 0 ''Python'' 9) = Return PyNone \<and>
   grade_list (snd (rate_hw demo_heap 4 0 ''Python'' 9) 0) ''Python'' = [9] \<and>
   grade_list (snd (rate_hw demo_heap 4 0 ''Python'' (- 3)) 0) ''Python'' = [- 3] \<and>
   grade_list (snd (rate_hw demo_heap 4 0 ''Python'' 1000) 0) ''Python'' = [1000] \<and>
   \<not> rate_hw_conditions (demo_heap 4) (demo_heap 1) ''JavaScript'' \<and>
   rate_hw demo_heap 4 1 ''JavaScript'' 9 =
     (Return (PyStr ''rate_hw function ERROR''), demo_heap) \<and>
   \<not> rate_hw_conditions (demo_heap 4) (demo_heap 2) ''Python'' \<and>
   rate_hw demo_heap 4 2 ''Python'' 9 =
     (Return (PyStr ''rate_hw function ERROR''), demo_heap)"
proof -
  have r: "demo_heap 4 = ReviewerObj reviewer1"
    by (simp add: demo_heap_def)
  have ok: "rate_hw_conditions (demo_heap 4) (demo_heap 0) ''Python''"
    by (simp add: demo_defs rate_hw_conditions_def attached_of_def)
  have enrolled: "\<not> rate_hw_conditions (demo_heap 4) (demo_heap 1) ''JavaScript''"
    by (simp add: demo_defs rate_hw_conditions_def attached_of_def)
  have kind: "\<not> rate_hw_conditions (demo_heap 4) (demo_heap 2) ''Python''"
    by (simp add: demo_defs rate_hw_conditions_def attached_of_def)
  have empty: "grade_list (demo_heap 0) ''Python'' = []"
    by (simp add: demo_defs grade_list_def grades_for_def)
  show ?thesis
    using r ok enrolled kind empty
      rate_hw_all_or_nothing [of demo_heap 4 reviewer1 0 "''Python''" 9, OF r]
      rate_hw_all_or_nothing [of demo_heap 4 reviewer1 0 "''Python''" "- 3", OF r]
      rate_hw_all_or_nothing [of demo_heap 4 reviewer1 0 "''Python''" 1000, OF r]
      rate_hw_all_or_nothing [of demo_heap 4 reviewer1 1 "''JavaScript''" 9, OF r]
      rate_hw_all_or_nothing [of demo_heap 4 reviewer1 2 "''Python''" 9, OF r]
    by simp
qed

section \<open>What a successful rating leaves alone\<close>

lemma rate_lecture_success_conditions:
  assumes "h self = StudentObj s"
    and "fst (rate_lecture h self lecturer C g) = Return PyNone"
  shows "rate_lecture_conditions (h self) (h lecturer) C g"
proof (rule ccontr)
  assume "\<not> rate_lecture_conditions (h self) (h lecturer) C g"
  with assms(1) have "rate_lecture h self lecturer C g = (Return (PyStr ''ERROR!''), h)"
    by (rule rate_lecture_reject)
  with assms(2) show False by simp
qed

lemma rate_hw_success_conditions:
  assumes "h self = ReviewerObj rv"
    and "fst (rate_hw h self student C g) = Return PyNone"
  shows "rate_hw_conditions (h self) (h student) C"
proof (rule ccontr)
  assume "\<not> rate_hw_conditions (h self) (h student) C"
  with assms(1)
  have "rate_hw h self student C g = (Return (PyStr ''rate_hw function ERROR''), h)"
    by (rule rate_hw_reject)
  with assms(2) show False by simp
qed

text \<open>
  Claim C10. A successful \<^verbatim>\<open>rate_lecture\<close> changes the lecturer's grade list for the
  given course and nothing else: every other object of the store, the calling student
  included, is as before; the lecturer keeps every attribute but the grade dictionary;
  in the dictionary the entries of the other courses are the same, in the same order.
  A successful \<^verbatim>\<open>rate_hw\<close> does the same to the rated student.
\<close>

theorem rating_frame:
  "(h self = StudentObj s \<and> fst (rate_lecture h self lecturer C g) = Return PyNone \<longrightarrow>
      is_Lecturer (h lecturer) \<and>
      snd (rate_lecture h self lecturer C g) self = StudentObj s \<and>
      (\<forall>r. r \<noteq> lecturer \<longrightarrow> snd (rate_lecture h self lecturer C g) r = h r) \<and>
      (\<forall>l. h lecturer = LecturerObj l \<longrightarrow>
         snd (rate_lecture h self lecturer C g) lecturer =
           LecturerObj
             (l\<lparr>lecturer.grades :=
                  AList.update C (grades_for (lecturer.grades l) C @ [g])
                    (lecturer.grades l)\<rparr>)) \<and>
      map_option (filter (\<lambda>p. fst p \<noteq> C))
          (get_grades (snd (rate_lecture h self lecturer C g) lecturer)) =
        map_option (filter (\<lambda>p. fst p \<noteq> C)) (get_grades (h lecturer)) \<and>
      (\<forall>c. c \<noteq> C \<longrightarrow>
         grade_list (snd (rate_lecture h self lecturer C g) lecturer) c =
           grade_list (h lecturer) c)) \<and>
   (h self = ReviewerObj rv \<and> fst (rate_hw h self student C g) = Return PyNone \<longrightarrow>
      is_Student (h student) \<and>
      snd (rate_hw h self student C g) self = ReviewerObj rv \<and>
      (\<forall>r. r \<noteq> student \<longrightarrow> snd (rate_hw h self student C g) r = h r) \<and>
      (\<forall>st. h student = StudentObj st \<longrightarrow>
         snd (rate_hw h self student C g) student =
           StudentObj
             (st\<lparr>student.grades :=
                   AList.update C (grades_for (student.grades st) C @ [g])
                     (student.grades st)\<rparr>)) \<and>
      map_option (filter (\<lambda>p. fst p \<noteq> C))
          (get_grades (snd (rate_hw h self student C g) student)) =
        map_option (filter (\<lambda>p. fst p \<noteq> C)) (get_grades (h student)) \<and>
      (\<forall>c. c \<noteq> C \<longrightarrow>
         grade_list (snd (rate_hw h self student C g) student) c =
           grade_list (h student) c))"
proof (intro conjI impI; elim conjE)
  assume self: "h self = StudentObj s"
    and ok: "fst (rate_lecture h self lecturer C g) = Return PyNone"
  let ?h' = "snd (rate_lecture h self lecturer C g)"
  have c: "rate_lecture_conditions (h self) (h lecturer) C g"
    using self ok by (rule rate_lecture_success_conditions)
  then obtain l where l: "h lecturer = LecturerObj l"
    by (cases "h lecturer") (simp_all add: rate_lecture_conditions_def)
  from c l self have "C \<in> set (courses_attached l)" "C \<in> set (courses_in_progress s)"
    "0 \<le> g" "g \<le> 10"
    by (simp_all add: rate_lecture_conditions_def attached_of_def)
  from rate_lecture_accept [OF self l this]
  have h': "?h' = h(lecturer := LecturerObj
                (l\<lparr>lecturer.grades :=
                     AList.update C (grades_for (lecturer.grades l) C @ [g])
                       (lecturer.grades l)\<rparr>))"
    by simp
  have ne: "lecturer \<noteq> self"
    using self l by auto
  show "is_Lecturer (h lecturer)"
    by (simp add: l)
  show "?h' self = StudentObj s"
    using ne self by (simp add: h')
  show "\<forall>r. r \<noteq> lecturer \<longrightarrow> ?h' r = h r"
    by (simp add: h')
  show "\<forall>l. h lecturer = LecturerObj l \<longrightarrow>
          ?h' lecturer =
            LecturerObj
              (l\<lparr>lecturer.grades :=
                   AList.update C (grades_for (lecturer.grades l) C @ [g])
                     (lecturer.grades l)\<rparr>)"
    by (simp add: h' l)
  show "map_option (filter (\<lambda>p. fst p \<noteq> C)) (get_grades (?h' lecturer)) =
        map_option (filter (\<lambda>p. fst p \<noteq> C)) (get_grades (h lecturer))"
    by (simp add: h' l filter_update_other)
  show "\<forall>c. c \<noteq> C \<longrightarrow> grade_list (?h' lecturer) c = grade_list (h lecturer) c"
    by (simp add: h' l grade_list_def grades_for_update_other)
next
  assume self: "h self = ReviewerObj rv"
    and ok: "fst (rate_hw h self student C g) = Return PyNone"
  let ?h' = "snd (rate_hw h self student C g)"
  have c: "rate_hw_conditions (h self) (h student) C"
    using self ok by (rule rate_hw_success_conditions)
  then obtain st where st: "h student = StudentObj st"
    by (cases "h student") (simp_all add: rate_hw_conditions_def)
  from c st self have "C \<in> set (courses_attached rv)" "C \<in> set (courses_in_progress st)"
    by (simp_all add: rate_hw_conditions_def attached_of_def)
  from rate_hw_accept [OF self st this]
  have h': "?h' = h(student := StudentObj
                (st\<lparr>student.grades :=
                      AList.update C (grades_for (student.grades st) C @ [g])
                        (student.grades st)\<rparr>))"
    by simp
  have ne: "student \<noteq> self"
    using self st by auto
  show "is_Student (h student)"
    by (simp add: st)
  show "?h' self = ReviewerObj rv"
    using ne self by (simp add: h')
  show "\<forall>r. r \<noteq> student \<longrightarrow> ?h' r = h r"
    by (simp add: h')
  show "\<forall>st. h student = StudentObj st \<longrightarrow>
          ?h' student =
            StudentObj
              (st\<lparr>student.grades :=
                    AList.update C (grades_for (student.grades st) C @ [g])
                      (student.grades st)\<rparr>)"
    by (simp add: h' st)
  show "map_option (filter (\<lambda>p. fst p \<noteq> C)) (get_grades (?h' student)) =
        map_option (filter (\<lambda>p. fst p \<noteq> C)) (get_grades (h student))"
    by (simp add: h' st filter_update_other)
  show "\<forall>c. c \<noteq> C \<longrightarrow> grade_list (?h' student) c = grade_list (h student) c"
    by (simp add: h' st grade_list_def grades_for_update_other)
qed

theorem rating_frame_witness:
  "demo_heap 0 = StudentObj student1 \<and>
   fst (rate_lecture demo_heap 0 2 ''Python'' 8) = Return PyNone \<and>
   snd (rate_lecture demo_heap 0 2 ''Python'' 8) 0 = StudentObj student1 \<and>
   snd (rate_lecture demo_heap 0 2 ''Python'' 8) 3 = LecturerObj lecturer2 \<and>
   snd (rate_lecture demo_heap 0 2 ''Python'' 8) 2 =
     LecturerObj (lecturer1\<lparr>lecturer.grades := [(''Python'', [8])]\<rparr>) \<and>
   grade_list (snd (rate_lecture demo_heap 0 2 ''Python'' 8) 2) ''C++'' = [] \<and>
   demo_heap 4 = ReviewerObj reviewer1 \<and>
   fst (rate_hw demo_heap 4 0 ''Python'' 9) = Return PyNone \<and>
   snd (rate_hw demo_heap 4 0 ''Python'' 9) 4 = ReviewerObj reviewer1 \<and>
   snd (rate_hw demo_heap 4 0 ''Python'' 9) 1 = StudentObj student2 \<and>
   snd (rate_hw demo_heap 4 0 ''Python'' 9) 0 =
     StudentObj (student1\<lparr>student.grades := [(''Python'', [9])]\<rparr>)"
proof -
  have s: "demo_heap 0 = StudentObj student1"
    by (simp add: demo_heap_def)
  have r: "demo_heap 4 = ReviewerObj reviewer1"
    by (simp add: demo_heap_def)
  have l: "demo_heap 2 = LecturerObj lecturer1" "demo_heap 3 = LecturerObj lecturer2"
    "demo_heap 1 = StudentObj student2"
    by (simp_all add: demo_heap_def)
  have ok1: "fst (rate_lecture demo_heap 0 2 ''Python'' 8) = Return PyNone"
    by (simp add: rate_lecture_def demo_defs)
  have ok2: "fst (rate_hw demo_heap 4 0 ''Python'' 9) = Return PyNone"
    by (simp add: rate_hw_def demo_defs)
  have g: "grades_for (lecturer.grades lecturer1) ''Python'' = []"
    "grades_for (lecturer.grades lecturer1) ''C++'' = []"
    "grades_for (student.grades student1) ''Python'' = []"
    "lecturer.grades lecturer1 = []" "student.grades student1 = []"
    by (simp_all add: lecturer1_def student1_def grades_for_def)
  show ?thesis
    using s r l ok1 ok2 g
      rating_frame [of demo_heap 0 student1 2 "''Python''" 8 reviewer1 0]
      rating_frame [of demo_heap 4 student1 2 "''Python''" 9 reviewer1 0]
    by (simp add: grade_list_def grades_for_def)
qed

section \<open>The invariant\<close>

lemma grades_grow_refl: "grades_grow d d"
  by (simp add: grades_grow_def)

lemma grades_grow_trans:
  assumes "grades_grow d1 d2" and "grades_grow d2 d3"
  shows "grades_grow d1 d3"
  unfolding grades_grow_def
proof (intro allI impI)
  fix c gs
  assume "map_of d1 c = Some gs"
  with assms(1) obtain m1 where "map_of d2 c = Some (gs @ m1)"
    by (auto simp: grades_grow_def)
  with assms(2) obtain m2 where "map_of d3 c = Some ((gs @ m1) @ m2)"
    unfolding grades_grow_def by blast
  then have "map_of d3 c = Some (gs @ (m1 @ m2))"
    by simp
  then show "\<exists>more. map_of d3 c = Some (gs @ more)" ..
qed

lemma grades_grow_update:
  "grades_grow d (AList.update c (grades_for d c @ [g]) d)"
  by (auto simp: grades_grow_def grades_for_def update_conv')

lemma obj_grows_refl: "obj_grows ob ob"
  by (simp add: obj_grows_def grades_grow_refl split: option.splits)

lemma obj_grows_trans:
  assumes "obj_grows a b" and "obj_grows b c"
  shows "obj_grows a c"
  using assms
  by (auto simp: obj_grows_def split: option.splits intro: grades_grow_trans)

lemma obj_grows_same_grades:
  "get_grades ob' = get_grades ob \<Longrightarrow> obj_grows ob ob'"
  by (simp add: obj_grows_def grades_grow_refl split: option.splits)

lemma heap_update_step:
  assumes "obj_inv (h self) \<longrightarrow> obj_inv ob'" and "obj_grows (h self) ob'"
  shows "(obj_inv (h r) \<longrightarrow> obj_inv ((h(self := ob')) r)) \<and>
         obj_grows (h r) ((h(self := ob')) r)"
  using assms by (cases "r = self") (simp_all add: obj_grows_refl)

lemma add_finished_course_step:
  "(obj_inv (h r) \<longrightarrow> obj_inv (snd (add_finished_course h self c) r)) \<and>
   obj_grows (h r) (snd (add_finished_course h self c) r)"
proof (cases "h self")
  case (StudentObj s)
  show ?thesis
  proof (cases "c \<in> set (finished_courses s)")
    case True
    with StudentObj show ?thesis
      by (simp add: add_finished_course_present obj_grows_refl)
  next
    case False
    let ?ob = "StudentObj (s\<lparr>finished_courses := finished_courses s @ [c]\<rparr>)"
    have "obj_inv (h self) \<longrightarrow> obj_inv ?ob"
      using False StudentObj by simp
    moreover have "obj_grows (h self) ?ob"
      using StudentObj by (simp add: obj_grows_same_grades)
    ultimately show ?thesis
      using StudentObj False heap_update_step [of h self ?ob r]
      by (simp add: add_finished_course_absent)
  qed
qed (simp_all add: add_finished_course_def obj_grows_refl)

lemma add_courses_in_progress_step:
  "(obj_inv (h r) \<longrightarrow> obj_inv (snd (add_courses_in_progress h self c) r)) \<and>
   obj_grows (h r) (snd (add_courses_in_progress h self c) r)"
proof (cases "h self")
  case (StudentObj s)
  show ?thesis
  proof (cases "c \<in> set (courses_in_progress s)")
    case True
    with StudentObj show ?thesis
      by (simp add: add_courses_in_progress_present obj_grows_refl)
  next
    case False
    let ?ob = "StudentObj (s\<lparr>courses_in_progress := courses_in_progress s @ [c]\<rparr>)"
    have "obj_inv (h self) \<longrightarrow> obj_inv ?ob"
      using False StudentObj by simp
    moreover have "obj_grows (h self) ?ob"
      using StudentObj by (simp add: obj_grows_same_grades)
    ultimately show ?thesis
      using StudentObj False heap_update_step [of h self ?ob r]
      by (simp add: add_courses_in_progress_absent)
  qed
qed (simp_all add: add_courses_in_progress_def obj_grows_refl)

lemma mentor_add_course_body_distinct:
  "distinct (courses_attached m) \<Longrightarrow>
   distinct (courses_attached (snd (mentor_add_course_body m c)))"
  by (simp add: mentor_add_course_body_def)

lemma mentor_add_course_body_grades:
  "lecturer.grades (snd (mentor_add_course_body l c)) = lecturer.grades l"
  by (simp add: mentor_add_course_body_def)

lemma mentor_add_course_step:
  "(obj_inv (h r) \<longrightarrow> obj_inv (snd (mentor_add_course h self c) r)) \<and>
   obj_grows (h r) (snd (mentor_add_course h self c) r)"
proof (cases "h self")
  case (MentorObj m)
  let ?ob = "MentorObj (snd (mentor_add_course_body m c))"
  have "obj_inv (h self) \<longrightarrow> obj_inv ?ob" "obj_grows (h self) ?ob"
    using MentorObj
    by (simp_all add: mentor_add_course_body_distinct obj_grows_same_grades)
  have eq: "snd (mentor_add_course h self c) = h(self := ?ob)"
    using MentorObj by (simp add: mentor_add_course_def split: prod.splits)
  from heap_update_step [of h self ?ob r, OF \<open>obj_inv (h self) \<longrightarrow> obj_inv ?ob\<close>
      \<open>obj_grows (h self) ?ob\<close>]
  show ?thesis unfolding eq .
next
  case (LecturerObj l)
  let ?ob = "LecturerObj (snd (mentor_add_course_body l c))"
  have "obj_inv (h self) \<longrightarrow> obj_inv ?ob" "obj_grows (h self) ?ob"
    using LecturerObj
    by (simp_all add: mentor_add_course_body_distinct mentor_add_course_body_grades
          obj_grows_same_grades)
  have eq: "snd (mentor_add_course h self c) = h(self := ?ob)"
    using LecturerObj by (simp add: mentor_add_course_def split: prod.splits)
  from heap_update_step [of h self ?ob r, OF \<open>obj_inv (h self) \<longrightarrow> obj_inv ?ob\<close>
      \<open>obj_grows (h self) ?ob\<close>]
  show ?thesis unfolding eq .
next
  case (ReviewerObj m)
  let ?ob = "ReviewerObj (snd (mentor_add_course_body m c))"
  have "obj_inv (h self) \<longrightarrow> obj_inv ?ob" "obj_grows (h self) ?ob"
    using ReviewerObj
    by (simp_all add: mentor_add_course_body_distinct obj_grows_same_grades)
  have eq: "snd (mentor_add_course h self c) = h(self := ?ob)"
    using ReviewerObj by (simp add: mentor_add_course_def split: prod.splits)
  from heap_update_step [of h self ?ob r, OF \<open>obj_inv (h self) \<longrightarrow> obj_inv ?ob\<close>
      \<open>obj_grows (h self) ?ob\<close>]
  show ?thesis unfolding eq .
qed (simp_all add: mentor_add_course_def obj_grows_refl)

lemma rate_lecture_step:
  "(obj_inv (h r) \<longrightarrow> obj_inv (snd (rate_lecture h self l c g) r)) \<and>
   obj_grows (h r) (snd (rate_lecture h self l c g) r)"
proof (cases "h self")
  case (StudentObj s)
  show ?thesis
  proof (cases "rate_lecture_conditions (h self) (h l) c g")
    case True
    then obtain lec where lec: "h l = LecturerObj lec"
      by (cases "h l") (simp_all add: rate_lecture_conditions_def)
    from True lec StudentObj
    have "c \<in> set (courses_attached lec)" "c \<in> set (courses_in_progress s)" "0 \<le> g" "g \<le> 10"
      by (simp_all add: rate_lecture_conditions_def attached_of_def)
    from rate_lecture_accept [OF StudentObj lec this]
    have eq: "snd (rate_lecture h self l c g) =
        h(l := LecturerObj
            (lec\<lparr>lecturer.grades :=
                   AList.update c (grades_for (lecturer.grades lec) c @ [g])
                     (lecturer.grades lec)\<rparr>))"
      by simp
    show ?thesis
      unfolding eq
      by (rule heap_update_step) (simp_all add: lec obj_grows_def grades_grow_update)
  next
    case False
    with StudentObj show ?thesis
      by (simp add: rate_lecture_reject obj_grows_refl)
  qed
qed (simp_all add: rate_lecture_def obj_grows_refl)

lemma rate_hw_step:
  "(obj_inv (h r) \<longrightarrow> obj_inv (snd (rate_hw h self st c g) r)) \<and>
   obj_grows (h r) (snd (rate_hw h self st c g) r)"
proof (cases "h self")
  case (ReviewerObj rv)
  show ?thesis
  proof (cases "rate_hw_conditions (h self) (h st) c")
    case True
    then obtain s where s: "h st = StudentObj s"
      by (cases "h st") (simp_all add: rate_hw_conditions_def)
    from True s ReviewerObj
    have "c \<in> set (courses_attached rv)" "c \<in> set (courses_in_progress s)"
      by (simp_all add: rate_hw_conditions_def attached_of_def)
    from rate_hw_accept [OF ReviewerObj s this]
    have eq: "snd (rate_hw h self st c g) =
        h(st := StudentObj
            (s\<lparr>student.grades :=
                 AList.update c (grades_for (student.grades s) c @ [g])
                   (student.grades s)\<rparr>))"
      by simp
    show ?thesis
      unfolding eq
      by (rule heap_update_step) (simp_all add: s obj_grows_def grades_grow_update)
  next
    case False
    with ReviewerObj show ?thesis
      by (simp add: rate_hw_reject obj_grows_refl)
  qed
qed (simp_all add: rate_hw_def obj_grows_refl)

lemma run_operation_step:
  "(obj_inv (h r) \<longrightarrow> obj_inv (snd (run_operation h x) r)) \<and>
   obj_grows (h r) (snd (run_operation h x) r)"
  by (cases x)
     (simp_all add: add_finished_course_step add_courses_in_progress_step
        mentor_add_course_step rate_lecture_step rate_hw_step)

lemma run_operations_steps:
  "(obj_inv (h r) \<longrightarrow> obj_inv (run_operations h xs r)) \<and>
   obj_grows (h r) (run_operations h xs r)"
proof (induction xs arbitrary: h)
  case Nil
  show ?case by (simp add: obj_grows_refl)
next
  case (Cons x xs)
  let ?h1 = "snd (run_operation h x)"
  from run_operation_step [of h r x]
  have 1: "obj_inv (h r) \<longrightarrow> obj_inv (?h1 r)" and 2: "obj_grows (h r) (?h1 r)"
    by simp_all
  from Cons.IH [of ?h1]
  have 3: "obj_inv (?h1 r) \<longrightarrow> obj_inv (run_operations ?h1 xs r)"
    and 4: "obj_grows (?h1 r) (run_operations ?h1 xs r)"
    by simp_all
  from 1 3 obj_grows_trans [OF 2 4] show ?case by simp
qed

text \<open>
  Claim C8. A freshly constructed student, mentor, lecturer or reviewer has no
  duplicate in a course list. Whatever public operations run (the three add operations,
  \<^verbatim>\<open>rate_lecture\<close> and \<^verbatim>\<open>rate_hw\<close>, with any arguments, one or many in a row), an object
  whose course lists had no duplicates still has none, and every entry of every grade
  dictionary is still there with its former list as a prefix of the present one.
\<close>

theorem invariant_preserved:
  "obj_inv (StudentObj (Student_init name surname gender)) \<and>
   obj_inv (MentorObj (Mentor_init name surname)) \<and>
   obj_inv (LecturerObj (Lecturer_init name surname)) \<and>
   obj_inv (ReviewerObj (Mentor_init name surname)) \<and>
   (obj_inv (h r) \<longrightarrow> obj_inv (snd (run_operation h x) r)) \<and>
   obj_grows (h r) (snd (run_operation h x) r) \<and>
   (obj_inv (h r) \<longrightarrow> obj_inv (run_operations h xs r)) \<and>
   obj_grows (h r) (run_operations h xs r)"
  using run_operation_step [of h r x] run_operations_steps [of h r xs]
  by (simp add: Student_init_def Mentor_init_def Lecturer_init_def)

theorem invariant_preserved_witness:
  "obj_inv (demo_heap 0) \<and>
   obj_inv (snd (run_operation demo_heap (Add_finished_course 0 ''Python'')) 0) \<and>
   obj_inv (run_operations demo_heap driver_ratings 0) \<and>
   obj_grows (demo_heap 0) (run_operations demo_heap driver_ratings 0)"
  using invariant_preserved
          [of "''Ivan''" "''Ivanov''" "''M''" demo_heap 0
              "Add_finished_course 0 ''Python''" driver_ratings]
  by (simp add: demo_heap_def student1_def)

section \<open>Averages are means of flattened grades\<close>












section \<open>Comparing by the overall mean\<close>




section \<open>Comparing objects of different kinds\<close>

lemma Student_compare_mismatch:
  assumes "\<not> is_Student other"
  shows "Student_eq s other = PyStr ''COMPARE ERROR''"
    and "Student_lt s other = PyStr ''COMPARE ERROR''"
    and "Student_le s other = PyStr ''COMPARE ERROR''"
    and "Student_ne s other = PyBool False"
    and "Student_gt s other = PyBool False"
    and "Student_ge s other = PyBool False"
  using assms
  by (cases other;
      simp add: Student_eq_def Student_lt_def Student_le_def Student_ne_def
        Student_gt_def Student_ge_def)+

lemma Lecturer_compare_mismatch:
  assumes "\<not> is_Lecturer other"
  shows "Lecturer_eq l other = PyStr ''COMPARE ERROR''"
    and "Lecturer_lt l other = PyStr ''COMPARE ERROR''"
    and "Lecturer_le l other = PyStr ''COMPARE ERROR''"
    and "Lecturer_ne l other = PyBool False"
    and "Lecturer_gt l other = PyBool False"
    and "Lecturer_ge l other = PyBool False"
  using assms
  by (cases other;
      simp add: Lecturer_eq_def Lecturer_lt_def Lecturer_le_def Lecturer_ne_def
        Lecturer_gt_def Lecturer_ge_def)+

text \<open>
  Claim C7 says that every comparison of a student or a lecturer with a value of another
  kind returns an error indicator and not a boolean. The methods written in the classes,
  \<^verbatim>\<open>__eq__\<close> and \<^verbatim>\<open>__lt__\<close>, do return the string; so does the derived \<^verbatim>\<open>__le__\<close>. The
  derived \<^verbatim>\<open>__gt__\<close> and \<^verbatim>\<open>__ge__\<close> and the inherited \<^verbatim>\<open>__ne__\<close> negate the truth value
  of that string and return the boolean \<^verbatim>\<open>False\<close>: here for the first student of the
  driver compared with its first lecturer, and for that lecturer compared with a value
  that is no instance of the program's classes.
\<close>

theorem compare_mismatch_boolean:
  "Student_lt student1 (LecturerObj lecturer1) = PyStr ''COMPARE ERROR'' \<and>
   Student_eq student1 (LecturerObj lecturer1) = PyStr ''COMPARE ERROR'' \<and>
   Student_gt student1 (LecturerObj lecturer1) = PyBool False \<and>
   Student_ge student1 (LecturerObj lecturer1) = PyBool False \<and>
   Student_ne student1 (LecturerObj lecturer1) = PyBool False \<and>
   Lecturer_lt lecturer1 OtherObj = PyStr ''COMPARE ERROR'' \<and>
   Lecturer_eq lecturer1 OtherObj = PyStr ''COMPARE ERROR'' \<and>
   Lecturer_gt lecturer1 OtherObj = PyBool False \<and>
   Lecturer_ge lecturer1 OtherObj = PyBool False \<and>
   Lecturer_ne lecturer1 OtherObj = PyBool False"
  by (simp add: Student_compare_mismatch Lecturer_compare_mismatch)

section \<open>The driver's ratings\<close>

lemma driver_run:
  "get_grades (run_operations demo_heap driver_ratings 0) =
     Some [(''Python'', [9]), (''JavaScript'', [10])]"
  "get_grades (run_operations demo_heap driver_ratings 1) =
     Some [(''Python'', [8]), (''GIT'', [9])]"
  "get_grades (run_operations demo_heap driver_ratings 2) = Some [(''Python'', [8])]"
  "get_grades (run_operations demo_heap driver_ratings 3) = Some [(''Python'', [10])]"
  by (simp_all add: driver_ratings_def demo_defs rate_hw_def rate_lecture_def)

end
